theory Spec2Isabelle
  imports Main "HOL-Library.AList"
begin

section \<open>Python values\<close>

text \<open>
  The values that the relation carries and that \<^verbatim>\<open>provides.py\<close> compares with
  \<^verbatim>\<open>!=\<close>: \<^verbatim>\<open>None\<close>, strings, integers (the port), lists and tuples. Python's
  \<^verbatim>\<open>!=\<close> on these is structural and distinguishes the types (\<^verbatim>\<open>None != ''\<close>,
  \<^verbatim>\<open>None != []\<close>, \<^verbatim>\<open>'' != []\<close>), as HOL's inequality on the datatype does.
\<close>

datatype pyval =
    PNone
  | PStr string
  | PInt int
  | PList "pyval list"
  | PTuple "pyval list"

text \<open>
  The only way an operation of \<^verbatim>\<open>provides.py\<close> can raise by itself: \<^verbatim>\<open>.split(',')\<close>
  called on a value that is not a string.
\<close>

datatype error = AttributeError

text \<open>Python's truth value of an object, as \<^verbatim>\<open>filter(None, ...)\<close> tests it.\<close>

fun truthy :: "pyval \<Rightarrow> bool" where
  "truthy PNone = False"
| "truthy (PStr s) = (s \<noteq> [])"
| "truthy (PInt i) = (i \<noteq> 0)"
| "truthy (PList xs) = (xs \<noteq> [])"
| "truthy (PTuple xs) = (xs \<noteq> [])"

text \<open>
  \<^verbatim>\<open>s.split(',')\<close>: the pieces of \<open>s\<close> between its commas, empty pieces included;
  the empty string gives one empty piece.
\<close>

fun split_comma :: "string \<Rightarrow> string list" where
  "split_comma [] = [[]]"
| "split_comma (c # cs) =
     (if c = CHR '','' then [] # split_comma cs
      else (case split_comma cs of
              [] \<Rightarrow> [[c]]
            | w # ws \<Rightarrow> (c # w) # ws))"

text \<open>\<^verbatim>\<open>','.join(ws)\<close>, the inverse of the split.\<close>

fun join_comma :: "string list \<Rightarrow> string" where
  "join_comma [] = []"
| "join_comma [w] = w"
| "join_comma (w # v # ws) = w @ CHR '','' # join_comma (v # ws)"

section \<open>The conversation store\<close>

text \<open>
  Modelled from the spec: the classes \<^verbatim>\<open>RelationBase\<close> and \<^verbatim>\<open>Conversation\<close> of
  \<^verbatim>\<open>charmhelpers.core.reactive\<close>, which \<^verbatim>\<open>provides.py\<close> imports and whose code is
  not among the sources. The spec (section 4.1) gives their contract: one conversation
  per party, each with remote fields, local fields and flags;
  \<^verbatim>\<open>conversation(partyKey)\<close> returns the party's conversation, creating it if absent;
  \<^verbatim>\<open>getRemote(field, default)\<close>, \<^verbatim>\<open>setRemote\<close> (bulk), \<^verbatim>\<open>getLocal(field)\<close>,
  \<^verbatim>\<open>setLocal(field, value)\<close>, \<^verbatim>\<open>setFlag(name)\<close>, \<^verbatim>\<open>clearFlag(name)\<close>. Section 8 adds
  that \<^verbatim>\<open>requestedDatabase(P)\<close> after \<^verbatim>\<open>setRemote({database: D})\<close> equals \<open>D\<close>: the
  remote fields are one map per conversation, read by \<^verbatim>\<open>get_remote\<close> and written by
  \<^verbatim>\<open>set_remote\<close>. An unset local field reads as \<^verbatim>\<open>None\<close>.
\<close>

record Conversation =
  remote :: "string \<rightharpoonup> pyval"
  local_data :: "string \<rightharpoonup> pyval"
  states :: "string set"

text \<open>
  The object \<^verbatim>\<open>self\<close>: the relation's name (it replaces \<^verbatim>\<open>{relation_name}\<close> in a state's
  name) and the known conversations by scope, in the order \<^verbatim>\<open>self.conversations()\<close>
  enumerates them. With \<^verbatim>\<open>scope = scopes.SERVICE\<close> a scope is a service's name.
\<close>

record PostgreSQL =
  relation_name :: string
  convs :: "(string \<times> Conversation) list"

definition empty_conversation :: Conversation where
  "empty_conversation = \<lparr>remote = Map.empty, local_data = Map.empty, states = {}\<rparr>"

text \<open>
  A conversation object is a handle on the store: the model names it by its scope, and
  every method of it takes the store and the scope. \<open>the_conv\<close> reads the record a
  handle stands for; a scope with no conversation yet reads as the empty one.
\<close>

definition the_conv :: "PostgreSQL \<Rightarrow> string \<Rightarrow> Conversation" where
  "the_conv self sc =
     (case map_of (convs self) sc of
        Some c \<Rightarrow> c
      | None \<Rightarrow> empty_conversation)"

text \<open>\<^verbatim>\<open>self.conversation(scope=sc)\<close>: creates the conversation when it is absent.\<close>

definition conversation :: "PostgreSQL \<Rightarrow> string \<Rightarrow> PostgreSQL" where
  "conversation self sc =
     (case map_of (convs self) sc of
        Some c \<Rightarrow> self
      | None \<Rightarrow> self\<lparr>convs := convs self @ [(sc, empty_conversation)]\<rparr>)"

text \<open>\<^verbatim>\<open>self.conversations()\<close>: the scopes of the known conversations.\<close>

definition conversations :: "PostgreSQL \<Rightarrow> string list" where
  "conversations self = map fst (convs self)"

definition put_conv :: "PostgreSQL \<Rightarrow> string \<Rightarrow> Conversation \<Rightarrow> PostgreSQL" where
  "put_conv self sc c = self\<lparr>convs := AList.update sc c (convs self)\<rparr>"

definition get_remote :: "PostgreSQL \<Rightarrow> string \<Rightarrow> string \<Rightarrow> pyval \<Rightarrow> pyval" where
  "get_remote self sc key dflt =
     (case remote (the_conv self sc) key of
        Some v \<Rightarrow> v
      | None \<Rightarrow> dflt)"

definition set_remote :: "PostgreSQL \<Rightarrow> string \<Rightarrow> (string \<times> pyval) list \<Rightarrow> PostgreSQL" where
  "set_remote self sc kwdata =
     put_conv self sc
       ((the_conv self sc)\<lparr>remote :=
          fold (\<lambda>(k, v) m. m(k \<mapsto> v)) kwdata (remote (the_conv self sc))\<rparr>)"

definition get_local :: "PostgreSQL \<Rightarrow> string \<Rightarrow> string \<Rightarrow> pyval" where
  "get_local self sc key =
     (case local_data (the_conv self sc) key of
        Some v \<Rightarrow> v
      | None \<Rightarrow> PNone)"

definition set_local :: "PostgreSQL \<Rightarrow> string \<Rightarrow> string \<Rightarrow> pyval \<Rightarrow> PostgreSQL" where
  "set_local self sc key v =
     put_conv self sc
       ((the_conv self sc)\<lparr>local_data := (local_data (the_conv self sc))(key \<mapsto> v)\<rparr>)"

definition set_state :: "PostgreSQL \<Rightarrow> string \<Rightarrow> string \<Rightarrow> PostgreSQL" where
  "set_state self sc name =
     put_conv self sc ((the_conv self sc)\<lparr>states := insert name (states (the_conv self sc))\<rparr>)"

definition remove_state :: "PostgreSQL \<Rightarrow> string \<Rightarrow> string \<Rightarrow> PostgreSQL" where
  "remove_state self sc name =
     put_conv self sc ((the_conv self sc)\<lparr>states := states (the_conv self sc) - {name}\<rparr>)"

text \<open>
  The two state names, with \<^verbatim>\<open>{relation_name}\<close> (in the decorators:
  \<^verbatim>\<open>{interface:pgsql}\<close>) replaced by the relation's name.
\<close>

definition database_requested :: "PostgreSQL \<Rightarrow> string" where
  "database_requested self = relation_name self @ ''.database.requested''"

definition roles_requested :: "PostgreSQL \<Rightarrow> string" where
  "roles_requested self = relation_name self @ ''.roles.requested''"

text \<open>
  Modelled from the spec: the decorator \<^verbatim>\<open>not_until\<close> of \<^verbatim>\<open>charmhelpers.core.reactive\<close>,
  whose code is not among the sources. The spec (sections 4.3 and 6) calls it a
  declarative precondition guard: a decorated operation invoked for a service whose
  flag is not set is a no-op. The guarded call is the last argument; a no-op returns
  \<^verbatim>\<open>None\<close> and the store as it was.
\<close>

definition not_until ::
  "string \<Rightarrow> PostgreSQL \<Rightarrow> string \<Rightarrow> pyval \<times> PostgreSQL \<Rightarrow> pyval \<times> PostgreSQL" where
  "not_until desired self service call =
     (if desired \<in> states (the_conv self service) then call else (PNone, self))"

section \<open>The operations of provides.py\<close>

text \<open>
  Every operation takes \<^verbatim>\<open>self\<close> and returns its result with the store it leaves: a
  read accessor too, since \<^verbatim>\<open>self.conversation(scope=service)\<close> may create a
  conversation.
\<close>

definition requested_database :: "PostgreSQL \<Rightarrow> string \<Rightarrow> pyval \<times> PostgreSQL" where
  "requested_database self service =
     (let self1 = conversation self service
      in (get_remote self1 service ''database'' (PStr ''''), self1))"

definition previous_database :: "PostgreSQL \<Rightarrow> string \<Rightarrow> pyval \<times> PostgreSQL" where
  "previous_database self service =
     (let self1 = conversation self service
      in (get_local self1 service ''database'', self1))"

definition previous_roles :: "PostgreSQL \<Rightarrow> string \<Rightarrow> pyval \<times> PostgreSQL" where
  "previous_roles self service =
     (let self1 = conversation self service
      in (get_local self1 service ''roles'', self1))"

text \<open>
  The lambda \<^verbatim>\<open>_roles\<close> of \<^verbatim>\<open>requested_roles\<close>:
  \<^verbatim>\<open>filter(None, conv.get_remote('roles', '').split(','))\<close>. The file runs under
  \<^verbatim>\<open>/usr/bin/python\<close> (Python 2), where \<^verbatim>\<open>filter\<close> on a list returns the list of its
  true elements.
\<close>

definition lambda_roles :: "PostgreSQL \<Rightarrow> string \<Rightarrow> error + pyval" where
  "lambda_roles self conv =
     (case get_remote self conv ''roles'' (PStr '''') of
        PStr s \<Rightarrow> Inr (PList (filter truthy (map PStr (split_comma s))))
      | _ \<Rightarrow> Inl AttributeError)"

text \<open>The loop of \<^verbatim>\<open>requested_roles()\<close> over \<^verbatim>\<open>self.conversations()\<close>.\<close>

fun requested_roles_loop ::
  "PostgreSQL \<Rightarrow> string list \<Rightarrow> pyval list \<Rightarrow> error + pyval list" where
  "requested_roles_loop self [] results = Inr results"
| "requested_roles_loop self (service # rest) results =
     (case lambda_roles self service of
        Inl e \<Rightarrow> Inl e
      | Inr r \<Rightarrow> requested_roles_loop self rest (results @ [PTuple [PStr service, r]]))"

fun requested_roles :: "PostgreSQL \<Rightarrow> string option \<Rightarrow> error + pyval \<times> PostgreSQL" where
  "requested_roles self (Some service) =
     (let self1 = conversation self service
      in case lambda_roles self1 service of
           Inl e \<Rightarrow> Inl e
         | Inr r \<Rightarrow> Inr (r, self1))"
| "requested_roles self None =
     (case requested_roles_loop self (conversations self) [] of
        Inl e \<Rightarrow> Inl e
      | Inr results \<Rightarrow> Inr (PList results, self))"

text \<open>
  The generator \<^verbatim>\<open>requested_databases\<close>, consumed to its end: one pair per known
  conversation, each database read through \<^verbatim>\<open>requested_database\<close>.
\<close>

fun requested_databases_loop ::
  "PostgreSQL \<Rightarrow> string list \<Rightarrow> (string \<times> pyval) list \<times> PostgreSQL" where
  "requested_databases_loop self [] = ([], self)"
| "requested_databases_loop self (service # rest) =
     (let (database, self1) = requested_database self service;
          (yielded, self2) = requested_databases_loop self1 rest
      in ((service, database) # yielded, self2))"

definition requested_databases :: "PostgreSQL \<Rightarrow> (string \<times> pyval) list \<times> PostgreSQL" where
  "requested_databases self = requested_databases_loop self (conversations self)"

text \<open>
  \<^verbatim>\<open>joined_changed\<close>, the handler of relation-joined and relation-changed. Its
  argument \<open>remote_service\<close> is what \<^verbatim>\<open>hookenv.remote_service()\<close> returns in the hook;
  \<^verbatim>\<open>self.conversation()\<close> is that service's conversation. An exception ends the hook
  without a store.
\<close>

definition joined_changed :: "PostgreSQL \<Rightarrow> string \<Rightarrow> error + PostgreSQL" where
  "joined_changed self remote_service =
     (let service = remote_service;
          self0 = conversation self service;
          (prev_db, self1) = previous_database self0 service;
          (req_db, self2) = requested_database self1 service;
          self3 = (if prev_db \<noteq> req_db
                   then set_state self2 service (database_requested self2)
                   else self2);
          (prev_roles, self4) = previous_roles self3 service
      in case requested_roles self4 (Some service) of
           Inl e \<Rightarrow> Inl e
         | Inr (req_roles, self5) \<Rightarrow>
             Inr (if prev_roles \<noteq> req_roles
                  then set_state self5 service (roles_requested self5)
                  else self5))"

text \<open>The body of \<^verbatim>\<open>provide_database\<close> (lines 71 to 83).\<close>

definition provide_database_body ::
  "PostgreSQL \<Rightarrow> string \<Rightarrow> pyval \<Rightarrow> pyval \<Rightarrow> pyval \<Rightarrow> pyval \<Rightarrow> pyval \<Rightarrow> pyval \<Rightarrow> pyval \<Rightarrow> pyval
     \<Rightarrow> pyval \<times> PostgreSQL" where
  "provide_database_body self service host port database user password
       schema_user schema_password state =
     (let self1 = conversation self service;
          self2 = set_remote self1 service
                    [(''host'', host),
                     (''port'', port),
                     (''database'', database),
                     (''user'', user),
                     (''password'', password),
                     (''schema_user'', schema_user),
                     (''schema_password'', schema_password),
                     (''state'', state)];
          self3 = set_local self2 service ''database'' database;
          self4 = remove_state self3 service (database_requested self3)
      in (PNone, self4))"

definition provide_database ::
  "PostgreSQL \<Rightarrow> string \<Rightarrow> pyval \<Rightarrow> pyval \<Rightarrow> pyval \<Rightarrow> pyval \<Rightarrow> pyval \<Rightarrow> pyval \<Rightarrow> pyval \<Rightarrow> pyval
     \<Rightarrow> pyval \<times> PostgreSQL" where
  "provide_database self service host port database user password
       schema_user schema_password state =
     not_until (database_requested self) self service
       (provide_database_body self service host port database user password
          schema_user schema_password state)"

text \<open>The body of \<^verbatim>\<open>ack_roles\<close> (lines 93 to 95).\<close>

definition ack_roles_body :: "PostgreSQL \<Rightarrow> string \<Rightarrow> pyval \<Rightarrow> pyval \<times> PostgreSQL" where
  "ack_roles_body self service roles =
     (let self1 = conversation self service;
          self2 = set_local self1 service ''roles'' roles;
          self3 = remove_state self2 service (roles_requested self2)
      in (PNone, self3))"

definition ack_roles :: "PostgreSQL \<Rightarrow> string \<Rightarrow> pyval \<Rightarrow> pyval \<times> PostgreSQL" where
  "ack_roles self service roles =
     not_until (roles_requested self) self service (ack_roles_body self service roles)"

text \<open>
  Example stores. \<open>wordpress_joined\<close>: the service wordpress has joined and asked for
  no database name and for two roles; nothing is acknowledged yet.
  \<open>wordpress_flagged\<close>: the same after the handler has set both states.
  \<open>no_services\<close>: no service has joined yet.
  \<open>two_services\<close>: wordpress flagged, and a second service with acknowledged data.
\<close>

definition wordpress_joined :: PostgreSQL where
  "wordpress_joined =
     \<lparr>relation_name = ''db'',
      convs = [(''wordpress'',
                \<lparr>remote = [''database'' \<mapsto> PStr [], ''roles'' \<mapsto> PStr ''admin,readonly''],
                 local_data = Map.empty,
                 states = {}\<rparr>)]\<rparr>"

definition wordpress_flagged :: PostgreSQL where
  "wordpress_flagged =
     \<lparr>relation_name = ''db'',
      convs = [(''wordpress'',
                \<lparr>remote = [''database'' \<mapsto> PStr [], ''roles'' \<mapsto> PStr ''admin,readonly''],
                 local_data = Map.empty,
                 states = {''db.database.requested'', ''db.roles.requested''}\<rparr>)]\<rparr>"

definition no_services :: PostgreSQL where
  "no_services = \<lparr>relation_name = ''db'', convs = []\<rparr>"

definition two_services :: PostgreSQL where
  "two_services =
     \<lparr>relation_name = ''db'',
      convs = [(''wordpress'',
                \<lparr>remote = [''database'' \<mapsto> PStr [], ''roles'' \<mapsto> PStr ''admin,readonly''],
                 local_data = Map.empty,
                 states = {''db.database.requested'', ''db.roles.requested''}\<rparr>),
               (''mediawiki'',
                \<lparr>remote = [''database'' \<mapsto> PStr ''wiki'', ''roles'' \<mapsto> PStr ''a,,b,''],
                 local_data = [''database'' \<mapsto> PStr ''wiki'',
                               ''roles'' \<mapsto> PList [PStr ''a'', PStr ''b'']],
                 states = {}\<rparr>)]\<rparr>"

section \<open>The store's primitives\<close>

lemma the_conv_conversation [simp]: "the_conv (conversation self sc) P = the_conv self P"
  by (auto simp: the_conv_def conversation_def split: option.splits if_splits)

lemma relation_name_conversation [simp]:
  "relation_name (conversation self sc) = relation_name self"
  by (simp add: conversation_def split: option.splits)

lemma map_of_conversation_other:
  "P \<noteq> sc \<Longrightarrow> map_of (convs (conversation self sc)) P = map_of (convs self) P"
  by (auto simp: conversation_def map_add_def split: option.splits)

lemma map_of_conversation_same:
  "map_of (convs (conversation self sc)) sc = Some (the_conv self sc)"
  by (auto simp: conversation_def the_conv_def map_add_def split: option.splits)

lemma conversation_known:
  "map_of (convs self) sc = Some c \<Longrightarrow> conversation self sc = self"
  by (simp add: conversation_def)

lemma conversation_idem [simp]:
  "conversation (conversation self sc) sc = conversation self sc"
  by (simp add: conversation_known map_of_conversation_same)

lemma the_conv_put_conv [simp]:
  "the_conv (put_conv self sc c) P = (if P = sc then c else the_conv self P)"
  by (simp add: the_conv_def put_conv_def update_conv')

lemma relation_name_put_conv [simp]: "relation_name (put_conv self sc c) = relation_name self"
  by (simp add: put_conv_def)

lemma map_of_put_conv:
  "map_of (convs (put_conv self sc c)) = (map_of (convs self))(sc \<mapsto> c)"
  by (simp add: put_conv_def update_conv')

lemma conversation_put_conv [simp]:
  "conversation (put_conv self sc c) sc = put_conv self sc c"
  by (simp add: conversation_known map_of_put_conv)

lemma put_conv_put_conv [simp]:
  "put_conv (put_conv self sc c) sc c' = put_conv self sc c'"
  by (simp add: put_conv_def)

lemma update_append_absent:
  "map_of al k = None \<Longrightarrow> AList.update k v (al @ [(k, e)]) = AList.update k v al"
  by (induction al) (auto split: if_splits)

lemma put_conv_conversation [simp]:
  "put_conv (conversation self sc) sc c = put_conv self sc c"
  by (auto simp: conversation_def put_conv_def update_append_absent split: option.splits)


lemma get_remote_conversation [simp]:
  "get_remote (conversation self sc) P key d = get_remote self P key d"
  by (simp add: get_remote_def)

lemma get_local_conversation [simp]:
  "get_local (conversation self sc) P key = get_local self P key"
  by (simp add: get_local_def)

lemma database_requested_conversation [simp]:
  "database_requested (conversation self sc) = database_requested self"
  by (simp add: database_requested_def)

lemma roles_requested_conversation [simp]:
  "roles_requested (conversation self sc) = roles_requested self"
  by (simp add: roles_requested_def)

lemma the_conv_set_state [simp]:
  "the_conv (set_state self sc n) P =
     (if P = sc then (the_conv self sc)\<lparr>states := insert n (states (the_conv self sc))\<rparr>
      else the_conv self P)"
  by (simp add: set_state_def)

lemma relation_name_set_state [simp]: "relation_name (set_state self sc n) = relation_name self"
  by (simp add: set_state_def)

lemma get_remote_set_state [simp]:
  "get_remote (set_state self sc n) P key d = get_remote self P key d"
  by (simp add: get_remote_def)

lemma get_local_set_state [simp]:
  "get_local (set_state self sc n) P key = get_local self P key"
  by (simp add: get_local_def)

lemma conversation_set_state [simp]:
  "conversation (set_state self sc n) sc = set_state self sc n"
  by (simp add: set_state_def)

lemma map_of_set_state_other:
  "P \<noteq> sc \<Longrightarrow> map_of (convs (set_state self sc n)) P = map_of (convs self) P"
  by (simp add: set_state_def map_of_put_conv)

lemma state_known:
  "n \<in> states (the_conv self sc) \<Longrightarrow> map_of (convs self) sc = Some (the_conv self sc)"
  by (simp add: the_conv_def empty_conversation_def split: option.splits)

lemma conversations_put_conv:
  "map_of (convs self) sc = Some c \<Longrightarrow> conversations (put_conv self sc c') = conversations self"
  by (auto simp: conversations_def put_conv_def update_keys dest: map_of_SomeD
      intro: rev_image_eqI)

lemma map_of_put_conv_other:
  "P \<noteq> sc \<Longrightarrow> map_of (convs (put_conv self sc c)) P = map_of (convs self) P"
  by (simp add: map_of_put_conv)

lemma provide_database_body_eq:
  "provide_database_body self service host port database user password
       schema_user schema_password state =
     (PNone,
      put_conv (conversation self service) service
        \<lparr>remote = (remote (the_conv self service))
           (''host'' \<mapsto> host, ''port'' \<mapsto> port, ''database'' \<mapsto> database,
            ''user'' \<mapsto> user, ''password'' \<mapsto> password, ''schema_user'' \<mapsto> schema_user,
            ''schema_password'' \<mapsto> schema_password, ''state'' \<mapsto> state),
         local_data = (local_data (the_conv self service))(''database'' \<mapsto> database),
         states = states (the_conv self service) - {database_requested self}\<rparr>)"
  by (cases "the_conv self service")
    (simp add: provide_database_body_def set_remote_def set_local_def remove_state_def
      database_requested_def Let_def)

lemma ack_roles_body_eq:
  "ack_roles_body self service roles =
     (PNone,
      put_conv (conversation self service) service
        \<lparr>remote = remote (the_conv self service),
         local_data = (local_data (the_conv self service))(''roles'' \<mapsto> roles),
         states = states (the_conv self service) - {roles_requested self}\<rparr>)"
  by (cases "the_conv self service")
    (simp add: ack_roles_body_def set_local_def remove_state_def roles_requested_def Let_def)


section \<open>The example stores\<close>

lemma wordpress_joined_conv:
  "the_conv wordpress_joined ''wordpress'' =
     \<lparr>remote = [''database'' \<mapsto> PStr [], ''roles'' \<mapsto> PStr ''admin,readonly''],
      local_data = Map.empty,
      states = {}\<rparr>"
  by (simp add: wordpress_joined_def the_conv_def)

lemma wordpress_joined_name: "relation_name wordpress_joined = ''db''"
  by (simp add: wordpress_joined_def)

lemma wordpress_flagged_conv:
  "the_conv wordpress_flagged ''wordpress'' =
     \<lparr>remote = [''database'' \<mapsto> PStr [], ''roles'' \<mapsto> PStr ''admin,readonly''],
      local_data = Map.empty,
      states = {''db.database.requested'', ''db.roles.requested''}\<rparr>"
  by (simp add: wordpress_flagged_def the_conv_def)

lemma wordpress_flagged_name: "relation_name wordpress_flagged = ''db''"
  by (simp add: wordpress_flagged_def)

lemma two_services_wordpress:
  "the_conv two_services ''wordpress'' =
     \<lparr>remote = [''database'' \<mapsto> PStr [], ''roles'' \<mapsto> PStr ''admin,readonly''],
      local_data = Map.empty,
      states = {''db.database.requested'', ''db.roles.requested''}\<rparr>"
  by (simp add: two_services_def the_conv_def)

lemma two_services_mediawiki:
  "the_conv two_services ''mediawiki'' =
     \<lparr>remote = [''database'' \<mapsto> PStr ''wiki'', ''roles'' \<mapsto> PStr ''a,,b,''],
      local_data = [''database'' \<mapsto> PStr ''wiki'',
                    ''roles'' \<mapsto> PList [PStr ''a'', PStr ''b'']],
      states = {}\<rparr>"
  by (simp add: two_services_def the_conv_def)

lemma two_services_name: "relation_name two_services = ''db''"
  by (simp add: two_services_def)

section \<open>Splitting on commas\<close>

lemma split_comma_nonempty [simp]: "split_comma s \<noteq> []"
  by (induction s) (auto split: list.splits)

lemma join_comma_Cons:
  "ws \<noteq> [] \<Longrightarrow> join_comma (w # ws) = w @ CHR '','' # join_comma ws"
  by (cases ws) simp_all

lemma join_split_comma: "join_comma (split_comma s) = s"
proof (induction s)
  case Nil
  show ?case by simp
next
  case (Cons c cs)
  obtain w ws where sp: "split_comma cs = w # ws"
    by (cases "split_comma cs") simp_all
  show ?case
  proof (cases "c = CHR '',''")
    case True
    with Cons show ?thesis by (simp add: join_comma_Cons)
  next
    case False
    with Cons sp show ?thesis by (cases ws) simp_all
  qed
qed

lemma split_comma_no_comma: "w \<in> set (split_comma s) \<Longrightarrow> CHR '','' \<notin> set w"
  by (induction s arbitrary: w) (auto split: list.splits if_splits)

lemma filter_truthy_PStr:
  "filter truthy (map PStr ws) = map PStr (filter (\<lambda>w. w \<noteq> []) ws)"
  by (induction ws) simp_all

section \<open>The handler in closed form\<close>

lemma joined_changed_eq:
  assumes "get_remote self P ''roles'' (PStr []) = PStr rs"
  shows "joined_changed self P =
     Inr (let s0 = conversation self P;
              s1 = (if get_local self P ''database'' \<noteq> get_remote self P ''database'' (PStr [])
                    then set_state s0 P (database_requested self) else s0)
          in if get_local self P ''roles'' \<noteq> PList (filter truthy (map PStr (split_comma rs)))
             then set_state s1 P (roles_requested self) else s1)"
  using assms
  by (simp add: joined_changed_def previous_database_def requested_database_def
      previous_roles_def lambda_roles_def Let_def database_requested_def roles_requested_def)





section \<open>What the operations leave alone\<close>

lemma joined_changed_Inr_roles:
  assumes "joined_changed self P = Inr s'"
  shows "\<exists>rs. get_remote self P ''roles'' (PStr []) = PStr rs"
  using assms
  by (cases "get_local self P ''database'' = get_remote self P ''database'' (PStr [])";
      cases "get_remote self P ''roles'' (PStr [])")
    (simp_all add: joined_changed_def previous_database_def requested_database_def
      previous_roles_def lambda_roles_def Let_def)

lemma joined_changed_raises:
  assumes "\<forall>rs. get_remote self P ''roles'' (PStr []) \<noteq> PStr rs"
  shows "joined_changed self P = Inl AttributeError"
  using assms
  by (cases "get_local self P ''database'' = get_remote self P ''database'' (PStr [])";
      cases "get_remote self P ''roles'' (PStr [])")
    (simp_all add: joined_changed_def previous_database_def requested_database_def
      previous_roles_def lambda_roles_def Let_def)

lemma joined_changed_other:
  assumes "joined_changed self P = Inr s'" and "P2 \<noteq> P"
  shows "map_of (convs s') P2 = map_of (convs self) P2"
proof -
  from joined_changed_Inr_roles [OF assms(1)] obtain rs
    where rs: "get_remote self P ''roles'' (PStr []) = PStr rs" ..
  from assms show ?thesis
    unfolding joined_changed_eq [OF rs]
    by (auto simp: Let_def map_of_set_state_other map_of_conversation_other split: if_splits)
qed

lemma joined_changed_local:
  assumes "joined_changed self P = Inr s'"
  shows "local_data (the_conv s' Q) = local_data (the_conv self Q)"
    and "remote (the_conv s' Q) = remote (the_conv self Q)"
proof -
  from joined_changed_Inr_roles [OF assms(1)] obtain rs
    where rs: "get_remote self P ''roles'' (PStr []) = PStr rs" ..
  from assms show "local_data (the_conv s' Q) = local_data (the_conv self Q)"
    unfolding joined_changed_eq [OF rs]
    by (auto simp: Let_def split: if_splits)
  from assms show "remote (the_conv s' Q) = remote (the_conv self Q)"
    unfolding joined_changed_eq [OF rs]
    by (auto simp: Let_def split: if_splits)
qed

lemma conversation_listed:
  "sc \<in> set (conversations self) \<Longrightarrow> conversation self sc = self"
proof -
  assume "sc \<in> set (conversations self)"
  then have "map_of (convs self) sc \<noteq> None"
    by (simp add: conversations_def map_of_eq_None_iff)
  then show ?thesis
    by (auto simp: conversation_def)
qed

lemma requested_databases_loop_eq:
  "set scs \<subseteq> set (conversations self) \<Longrightarrow>
   requested_databases_loop self scs =
     (map (\<lambda>sc. (sc, get_remote self sc ''database'' (PStr []))) scs, self)"
  by (induction scs) (simp_all add: requested_database_def conversation_listed)

lemma requested_databases_eq:
  "requested_databases self =
     (map (\<lambda>sc. (sc, get_remote self sc ''database'' (PStr []))) (conversations self), self)"
  by (simp add: requested_databases_def requested_databases_loop_eq)

lemma requested_roles_store:
  "requested_roles self sv = Inr (r, s') \<Longrightarrow>
   s' = (case sv of None \<Rightarrow> self | Some service \<Rightarrow> conversation self service)"
  by (cases sv) (auto simp: Let_def split: sum.splits)

lemma provide_database_other:
  "P2 \<noteq> P1 \<Longrightarrow>
   map_of (convs (snd (provide_database self P1 host port database user password
       schema_user schema_password state))) P2 = map_of (convs self) P2"
  by (simp add: provide_database_def not_until_def provide_database_body_eq
      map_of_put_conv_other map_of_conversation_other)

lemma ack_roles_other:
  "P2 \<noteq> P1 \<Longrightarrow> map_of (convs (snd (ack_roles self P1 roles))) P2 = map_of (convs self) P2"
  by (simp add: ack_roles_def not_until_def ack_roles_body_eq
      map_of_put_conv_other map_of_conversation_other)

lemma provide_database_local:
  "P \<noteq> Q \<or> k \<noteq> ''database'' \<Longrightarrow>
   local_data (the_conv (snd (provide_database self Q host port database user password
       schema_user schema_password state)) P) k = local_data (the_conv self P) k"
  by (auto simp: provide_database_def not_until_def provide_database_body_eq)

lemma ack_roles_local:
  "P \<noteq> Q \<or> k \<noteq> ''roles'' \<Longrightarrow>
   local_data (the_conv (snd (ack_roles self Q roles)) P) k = local_data (the_conv self P) k"
  by (auto simp: ack_roles_def not_until_def ack_roles_body_eq)

section \<open>Properties of the negotiation\<close>

text \<open>
  C1. On a joined or changed notification for a party \<open>P\<close> (whose remote roles, if
  any, are a string, so that the handler returns), the handler leaves
  \<^verbatim>\<open>database.requested\<close> set exactly when it was set before or the requested database
  (remote \<^verbatim>\<open>database\<close>, default the empty string) differs from the previous one (local
  \<^verbatim>\<open>database\<close>, \<^verbatim>\<open>None\<close> when unset): it sets the state on a difference, leaves it as it
  was otherwise, and clears no state.
\<close>

theorem joined_changed_database_requested:
  assumes "get_remote self P ''roles'' (PStr []) = PStr rs"
  shows "\<exists>self'. joined_changed self P = Inr self' \<and>
           (database_requested self' \<in> states (the_conv self' P)) =
             (database_requested self \<in> states (the_conv self P) \<or>
              fst (previous_database self P) \<noteq> fst (requested_database self P)) \<and>
           states (the_conv self P) \<subseteq> states (the_conv self' P) \<and>
           fst (requested_database self P) =
             (case remote (the_conv self P) ''database'' of None \<Rightarrow> PStr [] | Some d \<Rightarrow> d) \<and>
           fst (previous_database self P) =
             (case local_data (the_conv self P) ''database'' of None \<Rightarrow> PNone | Some d \<Rightarrow> d)"
  unfolding joined_changed_eq [OF assms]
  by (auto simp: Let_def previous_database_def requested_database_def database_requested_def
      roles_requested_def get_remote_def get_local_def split: option.splits)

theorem joined_changed_database_requested_witness:
  "get_remote wordpress_joined ''wordpress'' ''roles'' (PStr []) = PStr ''admin,readonly'' \<and>
   (\<exists>self'. joined_changed wordpress_joined ''wordpress'' = Inr self' \<and>
      database_requested self' \<in> states (the_conv self' ''wordpress''))"
  using joined_changed_database_requested
    [of wordpress_joined "''wordpress''" "''admin,readonly''"]
  by (auto simp: wordpress_joined_def get_remote_def get_local_def the_conv_def
      previous_database_def requested_database_def conversation_def database_requested_def Let_def)

text \<open>
  C2. On a joined or changed notification for a party \<open>P\<close> whose remote roles are the
  string \<open>rs\<close> (the empty string when absent), the handler compares the local
  \<^verbatim>\<open>roles\<close> (\<^verbatim>\<open>None\<close> when unset) with the list of the non-empty pieces of \<open>rs\<close> between
  its commas, which is what \<^verbatim>\<open>requested_roles(P)\<close> returns. Afterwards
  \<^verbatim>\<open>roles.requested\<close> is set exactly when it was set before or the two differ: the
  handler sets it if and only if they are unequal, and never clears it.
\<close>

theorem joined_changed_roles_requested:
  assumes "get_remote self P ''roles'' (PStr []) = PStr rs"
  shows "\<exists>self'. joined_changed self P = Inr self' \<and>
           (roles_requested self' \<in> states (the_conv self' P)) =
             (roles_requested self \<in> states (the_conv self P) \<or>
              fst (previous_roles self P) \<noteq>
                PList (map PStr (filter (\<lambda>w. w \<noteq> []) (split_comma rs)))) \<and>
           requested_roles self (Some P) =
             Inr (PList (map PStr (filter (\<lambda>w. w \<noteq> []) (split_comma rs))),
                  conversation self P) \<and>
           fst (previous_roles self P) =
             (case local_data (the_conv self P) ''roles'' of None \<Rightarrow> PNone | Some r \<Rightarrow> r)"
  unfolding joined_changed_eq [OF assms]
  using assms
  by (auto simp: Let_def previous_roles_def lambda_roles_def database_requested_def
      roles_requested_def get_local_def filter_truthy_PStr split: option.splits)

theorem joined_changed_roles_requested_witness:
  "get_remote wordpress_joined ''wordpress'' ''roles'' (PStr []) = PStr ''admin,readonly'' \<and>
   (\<exists>self'. joined_changed wordpress_joined ''wordpress'' = Inr self' \<and>
      roles_requested self' \<in> states (the_conv self' ''wordpress'')) \<and>
   requested_roles wordpress_joined (Some ''wordpress'') =
     Inr (PList [PStr ''admin'', PStr ''readonly''], wordpress_joined)"
  using joined_changed_roles_requested
    [of wordpress_joined "''wordpress''" "''admin,readonly''"]
  by (auto simp: wordpress_joined_def get_remote_def get_local_def the_conv_def
      previous_roles_def conversation_def roles_requested_def Let_def)

text \<open>
  C7. \<^verbatim>\<open>requested_roles(P)\<close> returns the remote \<^verbatim>\<open>roles\<close> string of \<open>P\<close> split on commas
  with the empty pieces dropped. The split is the one whose pieces hold no comma and,
  joined with commas, give the string back. For the remote roles \<^verbatim>\<open>"a,,b,"\<close> the result
  is \<^verbatim>\<open>["a", "b"]\<close>; for absent or empty remote roles it is the empty list.
\<close>

theorem requested_roles_split:
  "(get_remote self P ''roles'' (PStr []) = PStr rs \<longrightarrow>
      requested_roles self (Some P) =
        Inr (PList (map PStr (filter (\<lambda>w. w \<noteq> []) (split_comma rs))), conversation self P) \<and>
      join_comma (split_comma rs) = rs \<and>
      (\<forall>w \<in> set (split_comma rs). CHR '','' \<notin> set w)) \<and>
   (remote (the_conv self P) ''roles'' = Some (PStr ''a,,b,'') \<longrightarrow>
      requested_roles self (Some P) = Inr (PList [PStr ''a'', PStr ''b''], conversation self P)) \<and>
   (remote (the_conv self P) ''roles'' = None \<or>
    remote (the_conv self P) ''roles'' = Some (PStr []) \<longrightarrow>
      requested_roles self (Some P) = Inr (PList [], conversation self P))"
  by (auto simp: lambda_roles_def get_remote_def filter_truthy_PStr join_split_comma
      split_comma_no_comma)

theorem requested_roles_split_witness:
  "get_remote two_services ''mediawiki'' ''roles'' (PStr []) = PStr ''a,,b,'' \<and>
   remote (the_conv two_services ''mediawiki'') ''roles'' = Some (PStr ''a,,b,'') \<and>
   requested_roles two_services (Some ''mediawiki'') =
     Inr (PList [PStr ''a'', PStr ''b''], two_services) \<and>
   split_comma ''a,,b,'' = [''a'', [], ''b'', []] \<and>
   remote (the_conv two_services ''drupal'') ''roles'' = None \<and>
   requested_roles two_services (Some ''drupal'') =
     Inr (PList [], conversation two_services ''drupal'')"
  using requested_roles_split [of two_services "''mediawiki''" "''a,,b,''"]
    requested_roles_split [of two_services "''drupal''" "[]"]
  by (simp add: two_services_def get_remote_def the_conv_def conversation_def
      empty_conversation_def)

text \<open>
  C3. The body of \<^verbatim>\<open>provide_database\<close> returns \<^verbatim>\<open>None\<close>; in the service's conversation
  it writes the eight remote fields host, port, database, user, password, schema_user,
  schema_password and state (every other remote field stays), sets the local
  \<^verbatim>\<open>database\<close> to the database argument (every other local field stays) and removes
  \<^verbatim>\<open>database.requested\<close> (every other state stays). Nothing else changes: the store is
  the old one with that one conversation replaced, so the relation's name and every
  other service's conversation are as before. \<^verbatim>\<open>provide_database\<close> itself, invoked
  with \<^verbatim>\<open>database.requested\<close> set for the service as its decorator asks, does exactly
  this, and the known conversations are then the same as before.
\<close>

theorem provide_database_effect:
  "\<exists>self'.
     provide_database_body self service host port database user password
       schema_user schema_password state = (PNone, self') \<and>
     remote (the_conv self' service) =
       (remote (the_conv self service))
         (''host'' \<mapsto> host, ''port'' \<mapsto> port, ''database'' \<mapsto> database,
          ''user'' \<mapsto> user, ''password'' \<mapsto> password, ''schema_user'' \<mapsto> schema_user,
          ''schema_password'' \<mapsto> schema_password, ''state'' \<mapsto> state) \<and>
     local_data (the_conv self' service) =
       (local_data (the_conv self service))(''database'' \<mapsto> database) \<and>
     states (the_conv self' service) =
       states (the_conv self service) - {database_requested self} \<and>
     self' = self\<lparr>convs := AList.update service (the_conv self' service) (convs self)\<rparr> \<and>
     relation_name self' = relation_name self \<and>
     (\<forall>P. P \<noteq> service \<longrightarrow> map_of (convs self') P = map_of (convs self) P) \<and>
     (database_requested self \<in> states (the_conv self service) \<longrightarrow>
        provide_database self service host port database user password
          schema_user schema_password state = (PNone, self') \<and>
        conversations self' = conversations self)"
proof -
  have known: "database_requested self \<in> states (the_conv self service) \<Longrightarrow>
      map_of (convs self) service = Some (the_conv self service)"
    by (rule state_known)
  show ?thesis
    using known
    by (auto simp: provide_database_def not_until_def provide_database_body_eq
        conversations_put_conv map_of_put_conv_other)
      (simp add: put_conv_def)
qed

theorem provide_database_effect_witness:
  "database_requested wordpress_flagged \<in> states (the_conv wordpress_flagged ''wordpress'') \<and>
   (\<exists>self'.
      provide_database wordpress_flagged ''wordpress'' (PStr ''10.0.0.5'') (PInt 5432)
        (PStr ''wp_db'') (PStr ''wp_user'') (PStr ''secret'') (PStr ''admin_user'')
        (PStr ''admin_secret'') (PStr ''live'') = (PNone, self') \<and>
      remote (the_conv self' ''wordpress'') ''host'' = Some (PStr ''10.0.0.5'') \<and>
      remote (the_conv self' ''wordpress'') ''port'' = Some (PInt 5432) \<and>
      remote (the_conv self' ''wordpress'') ''database'' = Some (PStr ''wp_db'') \<and>
      remote (the_conv self' ''wordpress'') ''roles'' = Some (PStr ''admin,readonly'') \<and>
      local_data (the_conv self' ''wordpress'') ''database'' = Some (PStr ''wp_db'') \<and>
      states (the_conv self' ''wordpress'') = {''db.roles.requested''})"
proof -
  have h: "database_requested wordpress_flagged \<in> states (the_conv wordpress_flagged ''wordpress'')"
    by (simp add: wordpress_flagged_conv database_requested_def wordpress_flagged_name)
  from provide_database_effect [of wordpress_flagged "''wordpress''" "PStr ''10.0.0.5''"
      "PInt 5432" "PStr ''wp_db''" "PStr ''wp_user''" "PStr ''secret''" "PStr ''admin_user''"
      "PStr ''admin_secret''" "PStr ''live''"] h
  obtain self' where
    r: "provide_database wordpress_flagged ''wordpress'' (PStr ''10.0.0.5'') (PInt 5432)
        (PStr ''wp_db'') (PStr ''wp_user'') (PStr ''secret'') (PStr ''admin_user'')
        (PStr ''admin_secret'') (PStr ''live'') = (PNone, self')"
    and rem: "remote (the_conv self' ''wordpress'') =
       (remote (the_conv wordpress_flagged ''wordpress''))
         (''host'' \<mapsto> PStr ''10.0.0.5'', ''port'' \<mapsto> PInt 5432, ''database'' \<mapsto> PStr ''wp_db'',
          ''user'' \<mapsto> PStr ''wp_user'', ''password'' \<mapsto> PStr ''secret'',
          ''schema_user'' \<mapsto> PStr ''admin_user'',
          ''schema_password'' \<mapsto> PStr ''admin_secret'', ''state'' \<mapsto> PStr ''live'')"
    and loc: "local_data (the_conv self' ''wordpress'') =
       (local_data (the_conv wordpress_flagged ''wordpress''))(''database'' \<mapsto> PStr ''wp_db'')"
    and st: "states (the_conv self' ''wordpress'') =
       states (the_conv wordpress_flagged ''wordpress'') - {database_requested wordpress_flagged}"
    by blast
  have "states (the_conv self' ''wordpress'') = {''db.roles.requested''}"
    unfolding st by (auto simp: wordpress_flagged_conv database_requested_def wordpress_flagged_name)
  with h r show ?thesis
    by (simp add: rem loc wordpress_flagged_conv)
qed

text \<open>
  C4. The body of \<^verbatim>\<open>ack_roles\<close> returns \<^verbatim>\<open>None\<close>, stores the roles argument as the
  local \<^verbatim>\<open>roles\<close> as it is given (any value, neither parsed nor filtered) and removes
  \<^verbatim>\<open>roles.requested\<close>; the remote fields and the rest of the store stay. Afterwards
  \<^verbatim>\<open>previous_roles\<close> returns the same value and changes nothing. \<^verbatim>\<open>ack_roles\<close>
  itself, invoked with \<^verbatim>\<open>roles.requested\<close> set for the service as its decorator asks,
  does exactly this.
\<close>

theorem ack_roles_effect:
  "\<exists>self'.
     ack_roles_body self service roles = (PNone, self') \<and>
     local_data (the_conv self' service) =
       (local_data (the_conv self service))(''roles'' \<mapsto> roles) \<and>
     remote (the_conv self' service) = remote (the_conv self service) \<and>
     states (the_conv self' service) = states (the_conv self service) - {roles_requested self} \<and>
     roles_requested self' \<notin> states (the_conv self' service) \<and>
     previous_roles self' service = (roles, self') \<and>
     self' = self\<lparr>convs := AList.update service (the_conv self' service) (convs self)\<rparr> \<and>
     (roles_requested self \<in> states (the_conv self service) \<longrightarrow>
        ack_roles self service roles = (PNone, self'))"
  by (auto simp: ack_roles_def not_until_def ack_roles_body_eq previous_roles_def
      get_local_def roles_requested_def)
    (simp add: put_conv_def)

theorem ack_roles_effect_witness:
  "roles_requested wordpress_flagged \<in> states (the_conv wordpress_flagged ''wordpress'') \<and>
   (\<exists>self'.
      ack_roles wordpress_flagged ''wordpress'' (PList [PStr ''a'', PStr [], PStr ''b'']) =
        (PNone, self') \<and>
      local_data (the_conv self' ''wordpress'') ''roles'' =
        Some (PList [PStr ''a'', PStr [], PStr ''b'']) \<and>
      previous_roles self' ''wordpress'' = (PList [PStr ''a'', PStr [], PStr ''b''], self') \<and>
      states (the_conv self' ''wordpress'') = {''db.database.requested''})"
proof -
  have h: "roles_requested wordpress_flagged \<in> states (the_conv wordpress_flagged ''wordpress'')"
    by (simp add: wordpress_flagged_conv roles_requested_def wordpress_flagged_name)
  from ack_roles_effect [of wordpress_flagged "''wordpress''"
      "PList [PStr ''a'', PStr [], PStr ''b'']"] h
  obtain self' where
    r: "ack_roles wordpress_flagged ''wordpress'' (PList [PStr ''a'', PStr [], PStr ''b'']) =
        (PNone, self')"
    and loc: "local_data (the_conv self' ''wordpress'') =
       (local_data (the_conv wordpress_flagged ''wordpress''))
         (''roles'' \<mapsto> PList [PStr ''a'', PStr [], PStr ''b''])"
    and st: "states (the_conv self' ''wordpress'') =
       states (the_conv wordpress_flagged ''wordpress'') - {roles_requested wordpress_flagged}"
    and prev: "previous_roles self' ''wordpress'' = (PList [PStr ''a'', PStr [], PStr ''b''], self')"
    by blast
  have "states (the_conv self' ''wordpress'') = {''db.database.requested''}"
    unfolding st by (auto simp: wordpress_flagged_conv roles_requested_def wordpress_flagged_name)
  with h r prev show ?thesis
    by (simp add: loc)
qed

text \<open>
  C6. \<^verbatim>\<open>provide_database\<close> or \<^verbatim>\<open>ack_roles\<close> invoked for a service whose state
  (\<^verbatim>\<open>database.requested\<close>, \<^verbatim>\<open>roles.requested\<close>) is not set is a no-op: it returns
  \<^verbatim>\<open>None\<close> and the whole store, so every conversation's remote fields, local fields and
  states, is as it was. This rests on the guard \<open>not_until\<close> alone, which is modelled
  from the spec; the lemma after it shows that the bodies themselves do not test the
  state.
\<close>

theorem not_until_no_op:
  "(database_requested self \<notin> states (the_conv self service) \<longrightarrow>
      provide_database self service host port database user password
        schema_user schema_password state = (PNone, self)) \<and>
   (roles_requested self \<notin> states (the_conv self service) \<longrightarrow>
      ack_roles self service roles = (PNone, self))"
  by (simp add: provide_database_def ack_roles_def not_until_def)

theorem not_until_no_op_witness:
  "database_requested wordpress_joined \<notin> states (the_conv wordpress_joined ''wordpress'') \<and>
   roles_requested wordpress_joined \<notin> states (the_conv wordpress_joined ''wordpress'') \<and>
   provide_database wordpress_joined ''wordpress'' (PStr ''10.0.0.5'') (PInt 5432)
     (PStr ''wp_db'') (PStr ''wp_user'') (PStr ''secret'') (PStr ''admin_user'')
     (PStr ''admin_secret'') (PStr ''live'') = (PNone, wordpress_joined) \<and>
   ack_roles wordpress_joined ''wordpress'' (PList [PStr ''admin'']) = (PNone, wordpress_joined)"
  using not_until_no_op [of wordpress_joined "''wordpress''" "PStr ''10.0.0.5''" "PInt 5432"
      "PStr ''wp_db''" "PStr ''wp_user''" "PStr ''secret''" "PStr ''admin_user''"
      "PStr ''admin_secret''" "PStr ''live''" "PList [PStr ''admin'']"]
  by (simp add: wordpress_joined_conv)

lemma bodies_write_without_the_state:
  "states (the_conv wordpress_joined ''wordpress'') = {} \<and>
   local_data (the_conv
     (snd (provide_database_body wordpress_joined ''wordpress'' (PStr ''10.0.0.5'') (PInt 5432)
        (PStr ''wp_db'') (PStr ''wp_user'') (PStr ''secret'') (PStr ''admin_user'')
        (PStr ''admin_secret'') (PStr ''live''))) ''wordpress'') ''database'' =
     Some (PStr ''wp_db'') \<and>
   local_data (the_conv
     (snd (ack_roles_body wordpress_joined ''wordpress'' (PList [PStr ''admin''])))
       ''wordpress'') ''roles'' = Some (PList [PStr ''admin''])"
  by (simp add: provide_database_body_eq ack_roles_body_eq wordpress_joined_conv)



text \<open>
  C8. For two distinct parties \<open>P1\<close> and \<open>P2\<close>, every operation applied to \<open>P1\<close> leaves
  the conversation of \<open>P2\<close> (\<open>map_of (convs self) P2\<close>: its remote fields, local fields
  and states, or none when \<open>P2\<close> has no conversation) as it was: the handler when it
  returns, \<^verbatim>\<open>provide_database\<close>, \<^verbatim>\<open>ack_roles\<close> and the accessors for one service. The
  two accessors over all services leave the whole store as it was.
\<close>

theorem other_party_untouched:
  assumes "P1 \<noteq> P2"
  shows "(\<forall>s'. joined_changed self P1 = Inr s' \<longrightarrow>
            map_of (convs s') P2 = map_of (convs self) P2) \<and>
     map_of (convs (snd (provide_database self P1 host port database user password
         schema_user schema_password state))) P2 = map_of (convs self) P2 \<and>
     map_of (convs (snd (ack_roles self P1 roles))) P2 = map_of (convs self) P2 \<and>
     (\<forall>r s'. requested_roles self (Some P1) = Inr (r, s') \<longrightarrow>
            map_of (convs s') P2 = map_of (convs self) P2) \<and>
     (\<forall>r s'. requested_roles self None = Inr (r, s') \<longrightarrow> s' = self) \<and>
     map_of (convs (snd (previous_roles self P1))) P2 = map_of (convs self) P2 \<and>
     snd (requested_databases self) = self \<and>
     map_of (convs (snd (requested_database self P1))) P2 = map_of (convs self) P2 \<and>
     map_of (convs (snd (previous_database self P1))) P2 = map_of (convs self) P2"
proof -
  from assms have ne: "P2 \<noteq> P1" by simp
  have a: "\<forall>s'. joined_changed self P1 = Inr s' \<longrightarrow>
      map_of (convs s') P2 = map_of (convs self) P2"
    using joined_changed_other [OF _ ne] by blast
  have b: "\<forall>r s'. requested_roles self (Some P1) = Inr (r, s') \<longrightarrow>
      map_of (convs s') P2 = map_of (convs self) P2"
    using requested_roles_store [of self "Some P1"] map_of_conversation_other [OF ne]
    by fastforce
  have c: "\<forall>r s'. requested_roles self None = Inr (r, s') \<longrightarrow> s' = self"
    using requested_roles_store [of self None] by fastforce
  show ?thesis
    using a b c ne
    by (simp add: provide_database_other ack_roles_other previous_roles_def
        requested_database_def previous_database_def requested_databases_eq
        map_of_conversation_other)
qed

theorem other_party_untouched_witness:
  "''wordpress'' \<noteq> ''mediawiki'' \<and>
   (\<exists>s'. joined_changed two_services ''wordpress'' = Inr s' \<and>
      map_of (convs s') ''mediawiki'' = map_of (convs two_services) ''mediawiki'') \<and>
   database_requested two_services \<in> states (the_conv two_services ''wordpress'') \<and>
   map_of (convs (snd (provide_database two_services ''wordpress'' (PStr ''10.0.0.5'')
       (PInt 5432) (PStr ''wp_db'') (PStr ''wp_user'') (PStr ''secret'') (PStr ''admin_user'')
       (PStr ''admin_secret'') (PStr ''live'')))) ''mediawiki'' =
     map_of (convs two_services) ''mediawiki'' \<and>
   roles_requested two_services \<in> states (the_conv two_services ''wordpress'') \<and>
   map_of (convs (snd (ack_roles two_services ''wordpress'' (PList [PStr ''admin''])))) ''mediawiki'' =
     map_of (convs two_services) ''mediawiki''"
proof -
  have ne: "''wordpress'' \<noteq> ''mediawiki''" by simp
  have r: "get_remote two_services ''wordpress'' ''roles'' (PStr []) = PStr ''admin,readonly''"
    by (simp add: get_remote_def two_services_wordpress)
  have ex: "\<exists>s'. joined_changed two_services ''wordpress'' = Inr s'"
    by (simp add: joined_changed_eq [OF r])
  have f: "database_requested two_services \<in> states (the_conv two_services ''wordpress'')"
    "roles_requested two_services \<in> states (the_conv two_services ''wordpress'')"
    by (simp_all add: two_services_wordpress database_requested_def roles_requested_def
        two_services_name)
  from other_party_untouched [OF ne, of two_services "PStr ''10.0.0.5''" "PInt 5432"
      "PStr ''wp_db''" "PStr ''wp_user''" "PStr ''secret''" "PStr ''admin_user''"
      "PStr ''admin_secret''" "PStr ''live''" "PList [PStr ''admin'']"] ne ex f
  show ?thesis by blast
qed

text \<open>
  C9. The local fields of every party \<open>P\<close> are left as they were by the handler (when
  it returns, for any party \<open>Q\<close>) and by each of the five accessors
  (\<^verbatim>\<open>requested_roles\<close> in both its forms, \<^verbatim>\<open>previous_roles\<close>, \<^verbatim>\<open>requested_databases\<close>,
  \<^verbatim>\<open>requested_database\<close>, \<^verbatim>\<open>previous_database\<close>). Of the two other operations,
  \<^verbatim>\<open>provide_database\<close> for \<open>Q\<close> changes no local field but \<^verbatim>\<open>database\<close> of \<open>Q\<close>, and
  \<^verbatim>\<open>ack_roles\<close> for \<open>Q\<close> changes no local field but \<^verbatim>\<open>roles\<close> of \<open>Q\<close>.
\<close>

theorem local_fields_change_on_acknowledgement_only:
  "(\<forall>s'. joined_changed self Q = Inr s' \<longrightarrow>
      local_data (the_conv s' P) = local_data (the_conv self P)) \<and>
   (\<forall>r s'. requested_roles self sv = Inr (r, s') \<longrightarrow>
      local_data (the_conv s' P) = local_data (the_conv self P)) \<and>
   local_data (the_conv (snd (previous_roles self Q)) P) = local_data (the_conv self P) \<and>
   local_data (the_conv (snd (requested_databases self)) P) = local_data (the_conv self P) \<and>
   local_data (the_conv (snd (requested_database self Q)) P) = local_data (the_conv self P) \<and>
   local_data (the_conv (snd (previous_database self Q)) P) = local_data (the_conv self P) \<and>
   (P \<noteq> Q \<or> k \<noteq> ''database'' \<longrightarrow>
      local_data (the_conv (snd (provide_database self Q host port database user password
          schema_user schema_password state)) P) k = local_data (the_conv self P) k) \<and>
   (P \<noteq> Q \<or> k \<noteq> ''roles'' \<longrightarrow>
      local_data (the_conv (snd (ack_roles self Q roles)) P) k = local_data (the_conv self P) k)"
proof -
  have a: "\<forall>s'. joined_changed self Q = Inr s' \<longrightarrow>
      local_data (the_conv s' P) = local_data (the_conv self P)"
    using joined_changed_local(1) by blast
  have b: "\<forall>r s'. requested_roles self sv = Inr (r, s') \<longrightarrow>
      local_data (the_conv s' P) = local_data (the_conv self P)"
  proof (intro allI impI)
    fix r s'
    assume "requested_roles self sv = Inr (r, s')"
    from requested_roles_store [OF this] show
      "local_data (the_conv s' P) = local_data (the_conv self P)"
      by (cases sv) simp_all
  qed
  show ?thesis
    using a b provide_database_local [of P Q k self] ack_roles_local [of P Q k self]
    by (simp add: previous_roles_def requested_database_def previous_database_def
        requested_databases_eq)
qed

theorem local_fields_change_on_acknowledgement_only_witness:
  "(\<exists>s'. joined_changed two_services ''wordpress'' = Inr s' \<and>
      local_data (the_conv s' ''mediawiki'') = local_data (the_conv two_services ''mediawiki'') \<and>
      local_data (the_conv s' ''wordpress'') = Map.empty) \<and>
   (\<exists>r s'. requested_roles two_services (Some ''mediawiki'') = Inr (r, s') \<and>
      local_data (the_conv s' ''mediawiki'') ''roles'' = Some (PList [PStr ''a'', PStr ''b''])) \<and>
   ''mediawiki'' \<noteq> ''wordpress'' \<and>
   local_data (the_conv (snd (provide_database two_services ''wordpress'' (PStr ''10.0.0.5'')
       (PInt 5432) (PStr ''wp_db'') (PStr ''wp_user'') (PStr ''secret'') (PStr ''admin_user'')
       (PStr ''admin_secret'') (PStr ''live''))) ''mediawiki'') ''database'' =
     Some (PStr ''wiki'') \<and>
   ''database'' \<noteq> ''roles'' \<and>
   local_data (the_conv (snd (ack_roles two_services ''wordpress'' (PList [PStr ''admin''])))
     ''wordpress'') ''database'' = None"
proof -
  have r: "get_remote two_services ''wordpress'' ''roles'' (PStr []) = PStr ''admin,readonly''"
    by (simp add: get_remote_def two_services_wordpress)
  then obtain s1 where s1: "joined_changed two_services ''wordpress'' = Inr s1"
    by (simp add: joined_changed_eq [OF r])
  have r2: "get_remote two_services ''mediawiki'' ''roles'' (PStr []) = PStr ''a,,b,''"
    by (simp add: get_remote_def two_services_mediawiki)
  then obtain r' s2 where s2: "requested_roles two_services (Some ''mediawiki'') = Inr (r', s2)"
    by (simp add: lambda_roles_def)
  have ne: "''mediawiki'' \<noteq> ''wordpress''" "''database'' \<noteq> ''roles''" by simp_all
  note w1 = local_fields_change_on_acknowledgement_only
    [of two_services "''wordpress''" "''mediawiki''" "Some ''mediawiki''"]
  note w2 = local_fields_change_on_acknowledgement_only
    [of two_services "''wordpress''" "''wordpress''"]
  note w3 = local_fields_change_on_acknowledgement_only
    [of two_services "''wordpress''" "''mediawiki''" "Some ''mediawiki''" "''database''"
      "PStr ''10.0.0.5''" "PInt 5432" "PStr ''wp_db''" "PStr ''wp_user''" "PStr ''secret''"
      "PStr ''admin_user''" "PStr ''admin_secret''" "PStr ''live''"]
  note w4 = local_fields_change_on_acknowledgement_only
    [of two_services "''wordpress''" "''wordpress''" "Some ''mediawiki''" "''database''"
      "PStr ''10.0.0.5''" "PInt 5432" "PStr ''wp_db''" "PStr ''wp_user''" "PStr ''secret''"
      "PStr ''admin_user''" "PStr ''admin_secret''" "PStr ''live''" "PList [PStr ''admin'']"]
  have j: "local_data (the_conv s1 ''mediawiki'') = local_data (the_conv two_services ''mediawiki'')"
    "local_data (the_conv s1 ''wordpress'') = Map.empty"
    using w1 w2 s1 by (simp_all add: two_services_wordpress)
  have q: "local_data (the_conv s2 ''mediawiki'') ''roles'' = Some (PList [PStr ''a'', PStr ''b''])"
    using w1 s2 by (simp add: two_services_mediawiki)
  have p: "local_data (the_conv (snd (provide_database two_services ''wordpress'' (PStr ''10.0.0.5'')
       (PInt 5432) (PStr ''wp_db'') (PStr ''wp_user'') (PStr ''secret'') (PStr ''admin_user'')
       (PStr ''admin_secret'') (PStr ''live''))) ''mediawiki'') ''database'' =
     Some (PStr ''wiki'')"
    using w3 ne by (simp add: two_services_mediawiki)
  have a: "local_data (the_conv (snd (ack_roles two_services ''wordpress'' (PList [PStr ''admin''])))
     ''wordpress'') ''database'' = None"
    using w4 ne by (simp add: two_services_wordpress)
  from s1 s2 j q p a ne show ?thesis by blast
qed

text \<open>
  C10. For a party \<open>P\<close> whose local \<^verbatim>\<open>database\<close> and \<^verbatim>\<open>roles\<close> are unset,
  \<^verbatim>\<open>previous_database\<close> and \<^verbatim>\<open>previous_roles\<close> return \<^verbatim>\<open>None\<close>, which differs from the
  empty string and from the empty list. So when the remote \<^verbatim>\<open>database\<close> and \<^verbatim>\<open>roles\<close>
  of \<open>P\<close> are strings or absent (read as the empty string), as for a party that has
  just joined, the handler returns with both \<^verbatim>\<open>database.requested\<close> and
  \<^verbatim>\<open>roles.requested\<close> set, whatever the two strings are.
\<close>

theorem first_evaluation_requests_both:
  assumes "local_data (the_conv self P) ''database'' = None"
    and "local_data (the_conv self P) ''roles'' = None"
    and "get_remote self P ''database'' (PStr []) = PStr d"
    and "get_remote self P ''roles'' (PStr []) = PStr rs"
  shows "previous_database self P = (PNone, conversation self P) \<and>
     previous_roles self P = (PNone, conversation self P) \<and>
     PNone \<noteq> PStr [] \<and> PNone \<noteq> PList [] \<and>
     (\<exists>self'. joined_changed self P = Inr self' \<and>
        database_requested self' \<in> states (the_conv self' P) \<and>
        roles_requested self' \<in> states (the_conv self' P))"
  using assms
  by (simp add: joined_changed_eq [OF assms(4)] previous_database_def previous_roles_def
      get_local_def Let_def database_requested_def roles_requested_def)

theorem first_evaluation_requests_both_witness:
  "local_data (the_conv no_services ''wordpress'') ''database'' = None \<and>
   local_data (the_conv no_services ''wordpress'') ''roles'' = None \<and>
   remote (the_conv no_services ''wordpress'') ''database'' = None \<and>
   remote (the_conv no_services ''wordpress'') ''roles'' = None \<and>
   get_remote no_services ''wordpress'' ''database'' (PStr []) = PStr [] \<and>
   get_remote no_services ''wordpress'' ''roles'' (PStr []) = PStr [] \<and>
   requested_roles no_services (Some ''wordpress'') =
     Inr (PList [], conversation no_services ''wordpress'') \<and>
   (\<exists>self'. joined_changed no_services ''wordpress'' = Inr self' \<and>
      database_requested self' \<in> states (the_conv self' ''wordpress'') \<and>
      roles_requested self' \<in> states (the_conv self' ''wordpress''))"
proof -
  have c: "the_conv no_services ''wordpress'' = empty_conversation"
    by (simp add: the_conv_def no_services_def)
  have h: "local_data (the_conv no_services ''wordpress'') ''database'' = None"
    "local_data (the_conv no_services ''wordpress'') ''roles'' = None"
    "get_remote no_services ''wordpress'' ''database'' (PStr []) = PStr []"
    "get_remote no_services ''wordpress'' ''roles'' (PStr []) = PStr []"
    by (simp_all add: c empty_conversation_def get_remote_def)
  have e: "remote (the_conv no_services ''wordpress'') ''database'' = None"
    "remote (the_conv no_services ''wordpress'') ''roles'' = None"
    by (simp_all add: c empty_conversation_def)
  have q: "requested_roles no_services (Some ''wordpress'') =
     Inr (PList [], conversation no_services ''wordpress'')"
    using h(4) by (simp add: lambda_roles_def)
  from first_evaluation_requests_both [OF h] h e q show ?thesis by blast
qed

end
